theory Spec2Isabelle
  imports Main "HOL-Library.Word"
begin

section \<open>Errors\<close>

text \<open>
  The gRPC status codes that \<^verbatim>\<open>pkg/server/server.go\<close> passes to \<^verbatim>\<open>status.Error\<close>;
  \<open>OtherCode\<close> stands for every other code (the server's own error package uses custom ones).
\<close>

datatype Code = InvalidArgument | PermissionDenied | Internal | OtherCode nat

text \<open>
  The sentinel error values that the server tests for with \<^verbatim>\<open>errors.Is\<close>:
  \<^verbatim>\<open>graph.ErrResolutionDepthExceeded\<close>, \<^verbatim>\<open>condition.ErrEvaluationFailed\<close>,
  \<^verbatim>\<open>context.DeadlineExceeded\<close>, \<^verbatim>\<open>typesystem.ErrModelNotFound\<close> and
  \<^verbatim>\<open>typesystem.ErrInvalidModel\<close>.
\<close>

datatype Sentinel =
    ErrResolutionDepthExceeded
  | ErrEvaluationFailed
  | DeadlineExceeded
  | ErrModelNotFound
  | ErrInvalidModel

text \<open>
  A Go error value: \<open>Status c m\<close> is \<^verbatim>\<open>status.Error(c, m)\<close>, \<open>Named x\<close> is a sentinel,
  \<open>Errorf m\<close> is \<^verbatim>\<open>fmt.Errorf(m)\<close> without a wrapped cause, \<open>Wrapf m e\<close> is an error that
  wraps \<open>e\<close> (\<^verbatim>\<open>fmt.Errorf("...%w", e)\<close>), \<open>Joined es\<close> is an error with several causes
  (\<^verbatim>\<open>errors.Join\<close>, or \<^verbatim>\<open>fmt.Errorf\<close> with more than one \<^verbatim>\<open>%w\<close>), and \<open>Panic m\<close> is a
  run-time panic (calling through a nil field), which is not a returned error but ends the
  call all the same.
\<close>

datatype error =
    Status Code string
  | Named Sentinel
  | Errorf string
  | Wrapf string error
  | Joined "error list"
  | Panic string

text \<open>
  \<^verbatim>\<open>errors.Is(err, target)\<close> for a sentinel target: walk the tree of wrapped causes; an
  error with several causes matches when one of them does, so one error can match more
  than one sentinel.
\<close>

fun errors_Is :: "error \<Rightarrow> Sentinel \<Rightarrow> bool" where
  "errors_Is (Named x) target = (x = target)"
| "errors_Is (Wrapf m e) target = errors_Is e target"
| "errors_Is (Joined es) target = list_ex (\<lambda>e. errors_Is e target) es"
| "errors_Is (Status c m) target = False"
| "errors_Is (Errorf m) target = False"
| "errors_Is (Panic m) target = False"

section \<open>Messages, contexts and collaborators\<close>

datatype ConsistencyPreference = UNSPECIFIED | MINIMIZE_LATENCY | HIGHER_CONSISTENCY

record TupleKey =
  GetObject :: string
  GetRelation :: string
  GetUser :: string

text \<open>
  One record for the request messages of \<^verbatim>\<open>openfgav1\<close>, holding the getters that the
  server reads; a message that has no such field reads the zero value, as the generated
  getters do. Fields that a handler only passes on to its command (page size, continuation
  token, assertions, type definitions, the context of conditions) are left out.
\<close>

record Request =
  GetStoreId :: string
  GetAuthorizationModelId :: string
  GetConsistency :: ConsistencyPreference
  GetTupleKey :: TupleKey
  GetContextualTuples :: "TupleKey list"
  GetWrites :: "TupleKey list"
  GetDeletes :: "TupleKey list"

record Store =
  GetId :: string
  GetName :: string

record ListStoresResponse =
  Stores :: "Store list"
  ContinuationToken :: string

record CheckResponse =
  GetAllowed :: bool

record AuthClaims =
  ClientID :: string

text \<open>
  The request context, as far as the server reads it: the claims that
  \<^verbatim>\<open>authn.AuthClaimsFromContext\<close> finds (or not), and the mark that
  \<^verbatim>\<open>validator.RequestIsValidatedFromContext\<close> reads.
\<close>

record Context =
  AuthClaimsFromContext :: "AuthClaims option"
  RequestIsValidatedFromContext :: bool

definition Background :: Context where
  "Background = \<lparr>AuthClaimsFromContext = None, RequestIsValidatedFromContext = False\<rparr>"

text \<open>\<^verbatim>\<open>*typesystem.TypeSystem\<close>: the two methods the server calls.\<close>

record TypeSystem =
  GetAuthorizationModelID :: string
  GetModuleForObjectTypeRelation :: "string \<Rightarrow> string \<Rightarrow> error + string"

text \<open>
  \<^verbatim>\<open>*authz.Authorizer\<close>: the three methods the server calls. A Go result
  \<^verbatim>\<open>(value, error)\<close> is a sum, \<open>Inl\<close> the error.
\<close>

record Authorizer =
  Authorize :: "string \<Rightarrow> string \<Rightarrow> string \<Rightarrow> string list \<Rightarrow> error + bool"
  AuthorizeCreateStore :: "string \<Rightarrow> error + bool"
  ListAuthorizedStores :: "string \<Rightarrow> error + string list"

text \<open>
  \<^verbatim>\<open>graph.ResolveCheckRequest\<close> and its metadata. The metadata is shared by reference
  with the resolver, which counts dispatches and sets \<open>WasThrottled\<close>; the resolver of the
  model returns the metadata as it stands when resolution ends.
\<close>

record CheckRequestMetadata =
  Depth :: "32 word"
  DispatchCounter :: "32 word"
  WasThrottled :: bool

record ResolveCheckRequest =
  StoreID :: string
  AuthorizationModelID :: string
  ResolveTupleKey :: TupleKey
  ResolveContextualTuples :: "TupleKey list"
  RequestMetadata :: CheckRequestMetadata
  ResolveConsistency :: ConsistencyPreference

record ResolveCheckResponse =
  Allowed :: bool
  DatastoreQueryCount :: "32 word"

text \<open>
  Modelled from the spec: \<^verbatim>\<open>graph.NewCheckRequestMetadata\<close> is not among the verified
  files; the data model of the spec gives the metadata a depth, a dispatch counter and a
  throttled flag, and a new request has dispatched nothing and was not throttled.
\<close>

definition NewCheckRequestMetadata :: "32 word \<Rightarrow> CheckRequestMetadata" where
  "NewCheckRequestMetadata maxDepth =
     \<lparr>Depth = maxDepth, DispatchCounter = 0, WasThrottled = False\<rparr>"

type_synonym CheckResolver =
  "ResolveCheckRequest \<Rightarrow> (error + ResolveCheckResponse) \<times> CheckRequestMetadata"

type_synonym TypesystemResolverFunc = "string \<Rightarrow> string \<Rightarrow> error + TypeSystem"

datatype OpenFGADatastore = Datastore string

text \<open>
  \<^verbatim>\<open>serverconfig.FGAOnFGAConfig\<close>; its fields \<^verbatim>\<open>StoreID\<close> and \<^verbatim>\<open>ModelID\<close> carry a
  prefix here, since the resolve request above has a \<open>StoreID\<close> of its own.
\<close>

record FGAOnFGAConfig =
  Enabled :: bool
  FGAStoreID :: string
  FGAModelID :: string

text \<open>
  The \<^verbatim>\<open>Server\<close> struct: the fields that decide what a call returns. A nil pointer or
  nil function is \<open>None\<close>; \<^verbatim>\<open>uint32\<close> is a 32-bit word.
\<close>

record Server =
  datastore :: "OpenFGADatastore option"
  resolveNodeLimit :: "32 word"
  experimentals :: "string list"
  FGAOnFGA :: FGAOnFGAConfig
  typesystemResolver :: "TypesystemResolverFunc option"
  checkResolver :: "CheckResolver option"
  requestDurationByQueryHistogramBuckets :: "nat list"
  requestDurationByDispatchCountHistogramBuckets :: "nat list"
  checkDispatchThrottlingEnabled :: bool
  checkDispatchThrottlingDefaultThreshold :: "32 word"
  checkDispatchThrottlingMaxThreshold :: "32 word"
  listObjectsDispatchThrottlingEnabled :: bool
  listObjectsDispatchDefaultThreshold :: "32 word"
  listObjectsDispatchThrottlingMaxThreshold :: "32 word"
  listUsersDispatchThrottlingEnabled :: bool
  listUsersDispatchDefaultThreshold :: "32 word"
  listUsersDispatchThrottlingMaxThreshold :: "32 word"
  authorizer :: "Authorizer option"

text \<open>
  The functions and values of other packages that the server calls and whose code is not
  part of the verified files, taken as parameters: the error constructors of
  \<^verbatim>\<open>pkg/server/errors\<close>, the generated \<^verbatim>\<open>Validate\<close> of the request messages (its
  result is the message of the validation error, \<open>None\<close> for a valid request), the tuple
  validation of \<^verbatim>\<open>internal/validation\<close>, \<^verbatim>\<open>tuple.SplitObject\<close>, the header name
  \<^verbatim>\<open>httpmiddleware.XHttpCode\<close>, and the commands and queries of \<^verbatim>\<open>pkg/server/commands\<close>
  (\<open>Execute name\<close> is the command of the method \<open>name\<close>, run on the server's datastore;
  \<open>'r\<close> is the type of their responses).
\<close>

record 'r Deps =
  AuthorizationModelResolutionTooComplex :: error
  ThrottledTimeout :: error
  ValidationError :: "error \<Rightarrow> error"
  HandleError :: "string \<Rightarrow> error \<Rightarrow> error"
  HandleTupleValidateError :: "error \<Rightarrow> error"
  NewInternalError :: "string \<Rightarrow> error \<Rightarrow> error"
  LatestAuthorizationModelNotFound :: "string \<Rightarrow> error"
  AuthorizationModelNotFound :: "string \<Rightarrow> error"
  Validate :: "Request \<Rightarrow> string option"
  ValidateUserObjectRelation :: "TypeSystem \<Rightarrow> TupleKey \<Rightarrow> error option"
  ValidateTuple :: "TypeSystem \<Rightarrow> TupleKey \<Rightarrow> error option"
  SplitObject :: "string \<Rightarrow> string \<times> string"
  XHttpCode :: string
  NewListObjectsQuery :: "error option"
  ListObjectsExecute :: "Request \<Rightarrow> error + string list"
  ListObjectsExecuteStreamed :: "Request \<Rightarrow> error option"
  ListStoresExecute :: "Request \<Rightarrow> error + ListStoresResponse"
  Execute :: "string \<Rightarrow> Request \<Rightarrow> error + 'r"

section \<open>Effects\<close>

text \<open>
  What a call does besides returning: the response headers it sets through
  \<^verbatim>\<open>s.transport.SetHeader\<close> and the commands, queries and resolver it runs, in order.
  A handler returns its result together with this log.
\<close>

datatype Event = SetHeader string string | Executed string

type_synonym 'a io = "(error + 'a) \<times> Event list"

definition ret :: "'a \<Rightarrow> 'a io" where
  "ret x = (Inr x, [])"

definition raise :: "error \<Rightarrow> 'a io" where
  "raise e = (Inl e, [])"

definition emit :: "Event \<Rightarrow> unit io" where
  "emit ev = (Inr (), [ev])"

text \<open>Sequencing with \<^verbatim>\<open>if err != nil { return nil, err }\<close> between the two steps.\<close>

definition andThen :: "'a io \<Rightarrow> ('a \<Rightarrow> 'b io) \<Rightarrow> 'b io" where
  "andThen m f =
     (case m of
        (Inl e, l) \<Rightarrow> (Inl e, l)
      | (Inr x, l) \<Rightarrow> (case f x of (r, l') \<Rightarrow> (r, l @ l')))"

text \<open>A step that returns only an error, or nil.\<close>

definition check :: "error option \<Rightarrow> unit io" where
  "check r = (case r of Some e \<Rightarrow> raise e | None \<Rightarrow> ret ())"

text \<open>A step that returns a value or an error and has no effect of its own.\<close>

definition lift :: "error + 'a \<Rightarrow> 'a io" where
  "lift r = (r, [])"

section \<open>Feature flags and the consistency check\<close>

definition AuthorizationModelIDHeader :: string where
  "AuthorizationModelIDHeader = ''Openfga-Authorization-Model-Id''"

definition ExperimentalEnableConsistencyParams :: string where
  "ExperimentalEnableConsistencyParams = ''enable-consistency-params''"

definition ExperimentalFGAOnFGAParams :: string where
  "ExperimentalFGAOnFGAParams = ''enable-fga-on-fga''"

definition IsExperimentallyEnabled :: "Server \<Rightarrow> string \<Rightarrow> bool" where
  "IsExperimentallyEnabled s flag = (flag \<in> set (experimentals s))"

definition fgaOnFgaIsEnabled :: "Server \<Rightarrow> bool" where
  "fgaOnFgaIsEnabled s =
     (IsExperimentallyEnabled s ExperimentalFGAOnFGAParams \<and> Enabled (FGAOnFGA s))"

definition consistencyNotEnabled :: error where
  "consistencyNotEnabled = Status InvalidArgument
     ''Consistency parameters are not enabled. They can be enabled for experimental use by passing the `--experimentals enable-consistency-params` configuration option when running OpenFGA server''"

definition validateConsistencyRequest :: "Server \<Rightarrow> ConsistencyPreference \<Rightarrow> error option" where
  "validateConsistencyRequest s c =
     (if \<not> IsExperimentallyEnabled s ExperimentalEnableConsistencyParams \<and> UNSPECIFIED \<noteq> c
      then Some consistencyNotEnabled
      else None)"

definition fgaOnFgaNotEnabled :: error where
  "fgaOnFgaNotEnabled = Status InvalidArgument
     ''FGA on FGA parameters are not enabled. They can be enabled for experimental use by passing the `--experimentals enable-fga-on-fga` configuration option when running OpenFGA server. Additionally, the `--fga-on-fga-store-id` and `--fga-on-fga-model-id` parameters must not be empty''"

definition validateFGAOnFGAEnabled :: "Server \<Rightarrow> error option" where
  "validateFGAOnFGAEnabled s =
     (if fgaOnFgaIsEnabled s \<and> (FGAStoreID (FGAOnFGA s) = [] \<or> FGAModelID (FGAOnFGA s) = [])
      then Some fgaOnFgaNotEnabled
      else None)"

section \<open>The authorization gates\<close>

definition clientIDNotFound :: error where
  "clientIDNotFound = Status Internal ''client ID not found in context''"

definition permissionDenied :: error where
  "permissionDenied = Status PermissionDenied ''permission denied''"

text \<open>
  \<^verbatim>\<open>CheckAuthzListStores\<close> returns \<^verbatim>\<open>nil, nil\<close> without an authorizer: a nil slice is
  \<open>None\<close>. On an error the Go code returns an empty slice beside the error; the caller
  drops it.
\<close>

definition CheckAuthzListStores :: "Server \<Rightarrow> Context \<Rightarrow> error + string list option" where
  "CheckAuthzListStores s ctx =
     (case authorizer s of
        Some a \<Rightarrow>
          (case AuthClaimsFromContext ctx of
             None \<Rightarrow> Inl clientIDNotFound
           | Some claims \<Rightarrow>
               (case ListAuthorizedStores a (ClientID claims) of
                  Inl err \<Rightarrow> Inl err
                | Inr list \<Rightarrow> Inr (Some list)))
      | None \<Rightarrow> Inr None)"

definition CheckCreateStoreAuthz :: "Server \<Rightarrow> Context \<Rightarrow> error option" where
  "CheckCreateStoreAuthz s ctx =
     (case authorizer s of
        Some a \<Rightarrow>
          (case AuthClaimsFromContext ctx of
             None \<Rightarrow> Some clientIDNotFound
           | Some claims \<Rightarrow>
               (case AuthorizeCreateStore a (ClientID claims) of
                  Inl err \<Rightarrow> Some err
                | Inr authorized \<Rightarrow> if \<not> authorized then Some permissionDenied else None))
      | None \<Rightarrow> None)"

definition CheckAuthz :: "Server \<Rightarrow> Context \<Rightarrow> string \<Rightarrow> string \<Rightarrow> string list \<Rightarrow> error option" where
  "CheckAuthz s ctx storeID apiMethod modules =
     (case authorizer s of
        Some a \<Rightarrow>
          (case AuthClaimsFromContext ctx of
             None \<Rightarrow> Some clientIDNotFound
           | Some claims \<Rightarrow>
               (case Authorize a (ClientID claims) storeID apiMethod modules of
                  Inl err \<Rightarrow> Some err
                | Inr authorized \<Rightarrow> if \<not> authorized then Some permissionDenied else None))
      | None \<Rightarrow> None)"

section \<open>Steps shared by the handlers\<close>

text \<open>
  The block \<^verbatim>\<open>if !validator.RequestIsValidatedFromContext(ctx) { if err := req.Validate();
  err != nil { return nil, status.Error(codes.InvalidArgument, err.Error()) } }\<close>.
\<close>

definition validateRequest :: "'r Deps \<Rightarrow> Context \<Rightarrow> Request \<Rightarrow> unit io" where
  "validateRequest d ctx req =
     (if \<not> RequestIsValidatedFromContext ctx
      then (case Validate d req of
              Some msg \<Rightarrow> raise (Status InvalidArgument msg)
            | None \<Rightarrow> ret ())
      else ret ())"

definition resolveTypesystem :: "'r Deps \<Rightarrow> Server \<Rightarrow> string \<Rightarrow> string \<Rightarrow> TypeSystem io" where
  "resolveTypesystem d s storeID modelID =
     (case typesystemResolver s of
        None \<Rightarrow> raise (Panic ''nil typesystemResolver'')
      | Some resolver \<Rightarrow>
          (case resolver storeID modelID of
             Inl err \<Rightarrow>
               if errors_Is err ErrModelNotFound
               then (if modelID = []
                     then raise (LatestAuthorizationModelNotFound d storeID)
                     else raise (AuthorizationModelNotFound d modelID))
               else if errors_Is err ErrInvalidModel
               then raise (ValidationError d err)
               else raise (HandleError d [] err)
           | Inr typesys \<Rightarrow>
               andThen (emit (SetHeader AuthorizationModelIDHeader (GetAuthorizationModelID typesys)))
                 (\<lambda>_. ret typesys)))"

text \<open>Running a command, a query or the resolver: recorded in the log, whatever it returns.\<close>

definition run :: "string \<Rightarrow> error + 'a \<Rightarrow> 'a io" where
  "run name r = (r, [Executed name])"

definition zeroRequest :: Request where
  "zeroRequest =
     \<lparr>GetStoreId = [], GetAuthorizationModelId = [], GetConsistency = UNSPECIFIED,
      GetTupleKey = \<lparr>GetObject = [], GetRelation = [], GetUser = []\<rparr>,
      GetContextualTuples = [], GetWrites = [], GetDeletes = []\<rparr>"

section \<open>Write and the modules of a write request\<close>

text \<open>
  \<^verbatim>\<open>modulesMap\<close> is a Go map used as a set; the model keeps its keys in a list without
  duplicates. Go iterates a map in no fixed order, so only the set of the returned list
  is meaningful.
\<close>

definition insertKey :: "string \<Rightarrow> string list \<Rightarrow> string list" where
  "insertKey k ks = (if k \<in> set ks then ks else ks @ [k])"

text \<open>
  The loop over \<^verbatim>\<open>req.GetWrites().GetTupleKeys()\<close>: it returns the error of the type
  system, or \<^verbatim>\<open>modulesMap\<close> and \<^verbatim>\<open>shouldCheckOnStore\<close> as they stand when the loop ends.
\<close>

fun writesLoop :: "'r Deps \<Rightarrow> TypeSystem \<Rightarrow> TupleKey list \<Rightarrow> string list
    \<Rightarrow> error + (string list \<times> bool)" where
  "writesLoop d typesys [] modulesMap = Inr (modulesMap, False)"
| "writesLoop d typesys (tupleKey # rest) modulesMap =
     (case GetModuleForObjectTypeRelation typesys
             (fst (SplitObject d (GetObject tupleKey))) (GetRelation tupleKey) of
        Inl err \<Rightarrow> Inl err
      | Inr modl \<Rightarrow>
          if modl = [] then Inr (modulesMap, True)
          else writesLoop d typesys rest (insertKey modl modulesMap))"

text \<open>
  The loop over \<^verbatim>\<open>req.GetDeletes().GetTupleKeys()\<close>: on an empty module it breaks and
  leaves \<^verbatim>\<open>shouldCheckOnStore\<close> as it is.
\<close>

fun deletesLoop :: "'r Deps \<Rightarrow> TypeSystem \<Rightarrow> TupleKey list \<Rightarrow> string list
    \<Rightarrow> error + string list" where
  "deletesLoop d typesys [] modulesMap = Inr modulesMap"
| "deletesLoop d typesys (tupleKey # rest) modulesMap =
     (case GetModuleForObjectTypeRelation typesys
             (fst (SplitObject d (GetObject tupleKey))) (GetRelation tupleKey) of
        Inl err \<Rightarrow> Inl err
      | Inr modl \<Rightarrow>
          if modl = [] then Inr modulesMap
          else deletesLoop d typesys rest (insertKey modl modulesMap))"

definition getModulesForWriteRequest :: "'r Deps \<Rightarrow> Request \<Rightarrow> TypeSystem \<Rightarrow> error + string list" where
  "getModulesForWriteRequest d req typesys =
     (case writesLoop d typesys (GetWrites req) [] of
        Inl err \<Rightarrow> Inl err
      | Inr (modulesMap, shouldCheckOnStore) \<Rightarrow>
          (case (if \<not> shouldCheckOnStore
                 then deletesLoop d typesys (GetDeletes req) modulesMap
                 else Inr modulesMap) of
             Inl err \<Rightarrow> Inl err
           | Inr modulesMap' \<Rightarrow>
               if shouldCheckOnStore then Inr [] else Inr modulesMap'))"

definition Write :: "'r Deps \<Rightarrow> Server \<Rightarrow> Context \<Rightarrow> Request \<Rightarrow> 'r io" where
  "Write d s ctx req =
     andThen (validateRequest d ctx req) (\<lambda>_.
     andThen (resolveTypesystem d s (GetStoreId req) (GetAuthorizationModelId req)) (\<lambda>typesys.
     andThen (if fgaOnFgaIsEnabled s \<and> authorizer s \<noteq> None
              then andThen (lift (getModulesForWriteRequest d req typesys)) (\<lambda>modules.
                     check (CheckAuthz s ctx (GetStoreId req) ''Write'' modules))
              else ret ()) (\<lambda>_.
     run ''Write'' (Execute d ''Write''
       (zeroRequest\<lparr>GetStoreId := GetStoreId req,
          GetAuthorizationModelId := GetAuthorizationModelID typesys,
          GetWrites := GetWrites req, GetDeletes := GetDeletes req\<rparr>)))))"

section \<open>Check\<close>

text \<open>The loop over the contextual tuples: the first invalid tuple ends the call.\<close>

fun validateContextualTuples :: "'r Deps \<Rightarrow> TypeSystem \<Rightarrow> TupleKey list \<Rightarrow> error option" where
  "validateContextualTuples d typesys [] = None"
| "validateContextualTuples d typesys (ctxTuple # rest) =
     (case ValidateTuple d typesys ctxTuple of
        Some err \<Rightarrow> Some (HandleTupleValidateError d err)
      | None \<Rightarrow> validateContextualTuples d typesys rest)"

text \<open>The mapping of a resolver error, in the order of the source.\<close>

definition checkError :: "'r Deps \<Rightarrow> error \<Rightarrow> CheckRequestMetadata \<Rightarrow> error" where
  "checkError d err metadata =
     (if errors_Is err ErrResolutionDepthExceeded
      then AuthorizationModelResolutionTooComplex d
      else if errors_Is err ErrEvaluationFailed
      then ValidationError d err
      else if errors_Is err DeadlineExceeded \<and> WasThrottled metadata
      then ThrottledTimeout d
      else HandleError d [] err)"

definition resolveCheckRequest :: "Server \<Rightarrow> Request \<Rightarrow> TypeSystem \<Rightarrow> ResolveCheckRequest" where
  "resolveCheckRequest s req typesys =
     \<lparr>StoreID = GetStoreId req,
      AuthorizationModelID = GetAuthorizationModelID typesys,
      ResolveTupleKey = GetTupleKey req,
      ResolveContextualTuples = GetContextualTuples req,
      RequestMetadata = NewCheckRequestMetadata (resolveNodeLimit s),
      ResolveConsistency = GetConsistency req\<rparr>"

definition CheckWithoutAuthz :: "'r Deps \<Rightarrow> Server \<Rightarrow> Context \<Rightarrow> Request \<Rightarrow> CheckResponse io" where
  "CheckWithoutAuthz d s ctx req =
     andThen (check (validateConsistencyRequest s (GetConsistency req))) (\<lambda>_.
     andThen (validateRequest d ctx req) (\<lambda>_.
     andThen (resolveTypesystem d s (GetStoreId req) (GetAuthorizationModelId req)) (\<lambda>typesys.
     andThen (check (map_option (ValidationError d)
                (ValidateUserObjectRelation d typesys (GetTupleKey req)))) (\<lambda>_.
     andThen (check (validateContextualTuples d typesys (GetContextualTuples req))) (\<lambda>_.
     case checkResolver s of
       None \<Rightarrow> raise (Panic ''nil checkResolver'')
     | Some resolver \<Rightarrow>
         run ''Check''
           (case resolver (resolveCheckRequest s req typesys) of
              (Inl err, metadata) \<Rightarrow> Inl (checkError d err metadata)
            | (Inr resp, metadata) \<Rightarrow> Inr \<lparr>GetAllowed = Allowed resp\<rparr>))))))"

definition Check :: "'r Deps \<Rightarrow> Server \<Rightarrow> Context \<Rightarrow> Request \<Rightarrow> CheckResponse io" where
  "Check d s ctx req =
     andThen (check (CheckAuthz s ctx (GetStoreId req) ''Check'' [])) (\<lambda>_.
     CheckWithoutAuthz d s ctx req)"

section \<open>The other handlers\<close>

definition ListObjectsWithoutAuthz :: "'r Deps \<Rightarrow> Server \<Rightarrow> Context \<Rightarrow> Request \<Rightarrow> string list io" where
  "ListObjectsWithoutAuthz d s ctx req =
     andThen (check (validateConsistencyRequest s (GetConsistency req))) (\<lambda>_.
     andThen (validateRequest d ctx req) (\<lambda>_.
     andThen (resolveTypesystem d s (GetStoreId req) (GetAuthorizationModelId req)) (\<lambda>typesys.
     andThen (check (map_option (NewInternalError d []) (NewListObjectsQuery d))) (\<lambda>_.
     run ''ListObjects''
       (case ListObjectsExecute d
               (zeroRequest\<lparr>GetStoreId := GetStoreId req,
                  GetContextualTuples := GetContextualTuples req,
                  GetAuthorizationModelId := GetAuthorizationModelID typesys,
                  GetConsistency := GetConsistency req\<rparr>) of
          Inl err \<Rightarrow>
            if errors_Is err ErrEvaluationFailed then Inl (ValidationError d err) else Inl err
        | Inr objects \<Rightarrow> Inr objects)))))"

definition ListObjects :: "'r Deps \<Rightarrow> Server \<Rightarrow> Context \<Rightarrow> Request \<Rightarrow> string list io" where
  "ListObjects d s ctx req =
     andThen (check (CheckAuthz s ctx (GetStoreId req) ''ListObjects'' [])) (\<lambda>_.
     ListObjectsWithoutAuthz d s ctx req)"

text \<open>
  \<^verbatim>\<open>StreamedListObjects\<close> asks the gate with \<^verbatim>\<open>context.Background()\<close>; \<open>ctx\<close> is the
  context of the stream, \<^verbatim>\<open>srv.Context()\<close>, which the later steps use.
\<close>

definition StreamedListObjects :: "'r Deps \<Rightarrow> Server \<Rightarrow> Context \<Rightarrow> Request \<Rightarrow> unit io" where
  "StreamedListObjects d s ctx req =
     andThen (check (CheckAuthz s Background (GetStoreId req) ''StreamedListObjects'' [])) (\<lambda>_.
     andThen (check (validateConsistencyRequest s (GetConsistency req))) (\<lambda>_.
     andThen (validateRequest d ctx req) (\<lambda>_.
     andThen (resolveTypesystem d s (GetStoreId req) (GetAuthorizationModelId req)) (\<lambda>typesys.
     andThen (check (map_option (NewInternalError d []) (NewListObjectsQuery d))) (\<lambda>_.
     run ''StreamedListObjects''
       (case ListObjectsExecuteStreamed d
               (req\<lparr>GetAuthorizationModelId := GetAuthorizationModelID typesys\<rparr>) of
          Some err \<Rightarrow> Inl err
        | None \<Rightarrow> Inr ()))))))"

definition Read :: "'r Deps \<Rightarrow> Server \<Rightarrow> Context \<Rightarrow> Request \<Rightarrow> 'r io" where
  "Read d s ctx req =
     andThen (check (CheckAuthz s ctx (GetStoreId req) ''Read'' [])) (\<lambda>_.
     andThen (check (validateConsistencyRequest s (GetConsistency req))) (\<lambda>_.
     andThen (validateRequest d ctx req) (\<lambda>_.
     run ''Read'' (Execute d ''Read''
       (zeroRequest\<lparr>GetStoreId := GetStoreId req, GetTupleKey := GetTupleKey req,
          GetConsistency := GetConsistency req\<rparr>)))))"

definition Expand :: "'r Deps \<Rightarrow> Server \<Rightarrow> Context \<Rightarrow> Request \<Rightarrow> 'r io" where
  "Expand d s ctx req =
     andThen (check (CheckAuthz s ctx (GetStoreId req) ''Expand'' [])) (\<lambda>_.
     andThen (check (validateConsistencyRequest s (GetConsistency req))) (\<lambda>_.
     andThen (validateRequest d ctx req) (\<lambda>_.
     andThen (resolveTypesystem d s (GetStoreId req) (GetAuthorizationModelId req)) (\<lambda>typesys.
     run ''Expand'' (Execute d ''Expand''
       (zeroRequest\<lparr>GetStoreId := GetStoreId req,
          GetAuthorizationModelId := GetAuthorizationModelID typesys,
          GetTupleKey := GetTupleKey req, GetConsistency := GetConsistency req\<rparr>))))))"

definition ReadAuthorizationModel :: "'r Deps \<Rightarrow> Server \<Rightarrow> Context \<Rightarrow> Request \<Rightarrow> 'r io" where
  "ReadAuthorizationModel d s ctx req =
     andThen (check (CheckAuthz s ctx (GetStoreId req) ''ReadAuthorizationModel'' [])) (\<lambda>_.
     andThen (validateRequest d ctx req) (\<lambda>_.
     run ''ReadAuthorizationModel'' (Execute d ''ReadAuthorizationModel'' req)))"

definition WriteAuthorizationModel :: "'r Deps \<Rightarrow> Server \<Rightarrow> Context \<Rightarrow> Request \<Rightarrow> 'r io" where
  "WriteAuthorizationModel d s ctx req =
     andThen (check (CheckAuthz s ctx (GetStoreId req) ''WriteAuthorizationModel'' [])) (\<lambda>_.
     andThen (validateRequest d ctx req) (\<lambda>_.
     andThen (run ''WriteAuthorizationModel'' (Execute d ''WriteAuthorizationModel'' req)) (\<lambda>res.
     andThen (emit (SetHeader (XHttpCode d) ''201'')) (\<lambda>_.
     ret res))))"

definition ReadAuthorizationModels :: "'r Deps \<Rightarrow> Server \<Rightarrow> Context \<Rightarrow> Request \<Rightarrow> 'r io" where
  "ReadAuthorizationModels d s ctx req =
     andThen (check (CheckAuthz s ctx (GetStoreId req) ''ReadAuthorizationModels'' [])) (\<lambda>_.
     andThen (validateRequest d ctx req) (\<lambda>_.
     run ''ReadAuthorizationModels'' (Execute d ''ReadAuthorizationModels'' req)))"

definition WriteAssertions :: "'r Deps \<Rightarrow> Server \<Rightarrow> Context \<Rightarrow> Request \<Rightarrow> 'r io" where
  "WriteAssertions d s ctx req =
     andThen (check (CheckAuthz s ctx (GetStoreId req) ''WriteAssertions'' [])) (\<lambda>_.
     andThen (validateRequest d ctx req) (\<lambda>_.
     andThen (resolveTypesystem d s (GetStoreId req) (GetAuthorizationModelId req)) (\<lambda>typesys.
     andThen (run ''WriteAssertions'' (Execute d ''WriteAssertions''
                (zeroRequest\<lparr>GetStoreId := GetStoreId req,
                   GetAuthorizationModelId := GetAuthorizationModelID typesys\<rparr>))) (\<lambda>res.
     andThen (emit (SetHeader (XHttpCode d) ''204'')) (\<lambda>_.
     ret res)))))"

definition ReadAssertions :: "'r Deps \<Rightarrow> Server \<Rightarrow> Context \<Rightarrow> Request \<Rightarrow> 'r io" where
  "ReadAssertions d s ctx req =
     andThen (check (CheckAuthz s ctx (GetStoreId req) ''ReadAssertions'' [])) (\<lambda>_.
     andThen (validateRequest d ctx req) (\<lambda>_.
     andThen (resolveTypesystem d s (GetStoreId req) (GetAuthorizationModelId req)) (\<lambda>typesys.
     run ''ReadAssertions'' (Execute d ''ReadAssertions''
       (zeroRequest\<lparr>GetStoreId := GetStoreId req,
          GetAuthorizationModelId := GetAuthorizationModelID typesys\<rparr>)))))"

definition ReadChanges :: "'r Deps \<Rightarrow> Server \<Rightarrow> Context \<Rightarrow> Request \<Rightarrow> 'r io" where
  "ReadChanges d s ctx req =
     andThen (check (CheckAuthz s ctx (GetStoreId req) ''ReadChanges'' [])) (\<lambda>_.
     andThen (validateRequest d ctx req) (\<lambda>_.
     run ''ReadChanges'' (Execute d ''ReadChanges'' req)))"

definition CreateStore :: "'r Deps \<Rightarrow> Server \<Rightarrow> Context \<Rightarrow> Request \<Rightarrow> 'r io" where
  "CreateStore d s ctx req =
     andThen (validateRequest d ctx req) (\<lambda>_.
     andThen (check (CheckCreateStoreAuthz s ctx)) (\<lambda>_.
     andThen (run ''CreateStore'' (Execute d ''CreateStore'' req)) (\<lambda>res.
     andThen (emit (SetHeader (XHttpCode d) ''201'')) (\<lambda>_.
     ret res))))"

definition DeleteStore :: "'r Deps \<Rightarrow> Server \<Rightarrow> Context \<Rightarrow> Request \<Rightarrow> 'r io" where
  "DeleteStore d s ctx req =
     andThen (validateRequest d ctx req) (\<lambda>_.
     andThen (check (CheckAuthz s ctx (GetStoreId req) ''DeleteStore'' [])) (\<lambda>_.
     andThen (run ''DeleteStore'' (Execute d ''DeleteStore'' req)) (\<lambda>res.
     andThen (emit (SetHeader (XHttpCode d) ''204'')) (\<lambda>_.
     ret res))))"

definition GetStore :: "'r Deps \<Rightarrow> Server \<Rightarrow> Context \<Rightarrow> Request \<Rightarrow> 'r io" where
  "GetStore d s ctx req =
     andThen (validateRequest d ctx req) (\<lambda>_.
     andThen (check (CheckAuthz s ctx (GetStoreId req) ''GetStore'' [])) (\<lambda>_.
     run ''GetStore'' (Execute d ''GetStore'' req)))"

text \<open>
  \<^verbatim>\<open>storesMap\<close> is a Go map used as a set; ranging over a nil slice adds nothing to it.
\<close>

definition storesMapOf :: "string list option \<Rightarrow> string set" where
  "storesMapOf stores = (case stores of None \<Rightarrow> {} | Some list \<Rightarrow> set list)"

definition ListStores :: "'r Deps \<Rightarrow> Server \<Rightarrow> Context \<Rightarrow> Request \<Rightarrow> ListStoresResponse io" where
  "ListStores d s ctx req =
     andThen (validateRequest d ctx req) (\<lambda>_.
     andThen (lift (CheckAuthzListStores s ctx)) (\<lambda>stores.
     andThen (run ''ListStores'' (ListStoresExecute d req)) (\<lambda>resp.
     ret \<lparr>Stores = filter (\<lambda>store. GetId store \<in> storesMapOf stores) (Stores resp),
          ContinuationToken = ContinuationToken resp\<rparr>)))"

section \<open>Construction\<close>

text \<open>
  The constants of \<^verbatim>\<open>internal/server/config\<close> that fill the fields of the model; their
  values are not in the verified files.
\<close>

record serverconfig =
  DefaultResolveNodeLimit :: "32 word"
  DefaultCheckDispatchThrottlingEnabled :: bool
  DefaultCheckDispatchThrottlingDefaultThreshold :: "32 word"
  DefaultListObjectsDispatchThrottlingEnabled :: bool
  DefaultListObjectsDispatchThrottlingDefaultThreshold :: "32 word"
  DefaultListObjectsDispatchThrottlingMaxThreshold :: "32 word"
  DefaultListUsersDispatchThrottlingEnabled :: bool
  DefaultListUsersDispatchThrottlingDefaultThreshold :: "32 word"
  DefaultListUsersDispatchThrottlingMaxThreshold :: "32 word"

text \<open>
  The constructors that \<^verbatim>\<open>NewServerWithOpts\<close> calls once the options are validated:
  \<^verbatim>\<open>graph.NewOrderedCheckResolvers(...).Build()\<close>, the wrapping of the datastore,
  \<^verbatim>\<open>typesystem.MemoizedTypesystemResolverFunc\<close> and \<^verbatim>\<open>authz.NewAuthorizer\<close>.
\<close>

record Builders =
  config :: serverconfig
  NewOrderedCheckResolvers :: "Server \<Rightarrow> CheckResolver"
  NewCachedOpenFGADatastore :: "OpenFGADatastore \<Rightarrow> OpenFGADatastore"
  MemoizedTypesystemResolverFunc :: "OpenFGADatastore \<Rightarrow> TypesystemResolverFunc"
  NewAuthorizer :: "FGAOnFGAConfig \<Rightarrow> error + Authorizer"

type_synonym OpenFGAServiceV1Option = "Server \<Rightarrow> Server"

definition WithDatastore :: "OpenFGADatastore \<Rightarrow> OpenFGAServiceV1Option" where
  "WithDatastore ds = (\<lambda>s. s\<lparr>datastore := Some ds\<rparr>)"

definition WithResolveNodeLimit :: "32 word \<Rightarrow> OpenFGAServiceV1Option" where
  "WithResolveNodeLimit limit = (\<lambda>s. s\<lparr>resolveNodeLimit := limit\<rparr>)"

definition WithExperimentals :: "string list \<Rightarrow> OpenFGAServiceV1Option" where
  "WithExperimentals flags = (\<lambda>s. s\<lparr>experimentals := flags\<rparr>)"

definition WithFGAOnFGAParams :: "FGAOnFGAConfig \<Rightarrow> OpenFGAServiceV1Option" where
  "WithFGAOnFGAParams c = (\<lambda>s. s\<lparr>FGAOnFGA := c\<rparr>)"

definition WithRequestDurationByQueryHistogramBuckets :: "nat list \<Rightarrow> OpenFGAServiceV1Option" where
  "WithRequestDurationByQueryHistogramBuckets buckets =
     (\<lambda>s. s\<lparr>requestDurationByQueryHistogramBuckets := sort buckets\<rparr>)"

definition WithRequestDurationByDispatchCountHistogramBuckets :: "nat list \<Rightarrow> OpenFGAServiceV1Option" where
  "WithRequestDurationByDispatchCountHistogramBuckets buckets =
     (\<lambda>s. s\<lparr>requestDurationByDispatchCountHistogramBuckets := sort buckets\<rparr>)"

definition WithDispatchThrottlingCheckResolverEnabled :: "bool \<Rightarrow> OpenFGAServiceV1Option" where
  "WithDispatchThrottlingCheckResolverEnabled enabled =
     (\<lambda>s. s\<lparr>checkDispatchThrottlingEnabled := enabled\<rparr>)"

definition WithDispatchThrottlingCheckResolverThreshold :: "32 word \<Rightarrow> OpenFGAServiceV1Option" where
  "WithDispatchThrottlingCheckResolverThreshold defaultThreshold =
     (\<lambda>s. s\<lparr>checkDispatchThrottlingDefaultThreshold := defaultThreshold\<rparr>)"

definition WithDispatchThrottlingCheckResolverMaxThreshold :: "32 word \<Rightarrow> OpenFGAServiceV1Option" where
  "WithDispatchThrottlingCheckResolverMaxThreshold maxThreshold =
     (\<lambda>s. s\<lparr>checkDispatchThrottlingMaxThreshold := maxThreshold\<rparr>)"

definition WithListObjectsDispatchThrottlingEnabled :: "bool \<Rightarrow> OpenFGAServiceV1Option" where
  "WithListObjectsDispatchThrottlingEnabled enabled =
     (\<lambda>s. s\<lparr>listObjectsDispatchThrottlingEnabled := enabled\<rparr>)"

definition WithListObjectsDispatchThrottlingThreshold :: "32 word \<Rightarrow> OpenFGAServiceV1Option" where
  "WithListObjectsDispatchThrottlingThreshold threshold =
     (\<lambda>s. s\<lparr>listObjectsDispatchDefaultThreshold := threshold\<rparr>)"

definition WithListObjectsDispatchThrottlingMaxThreshold :: "32 word \<Rightarrow> OpenFGAServiceV1Option" where
  "WithListObjectsDispatchThrottlingMaxThreshold maxThreshold =
     (\<lambda>s. s\<lparr>listObjectsDispatchThrottlingMaxThreshold := maxThreshold\<rparr>)"

definition WithListUsersDispatchThrottlingEnabled :: "bool \<Rightarrow> OpenFGAServiceV1Option" where
  "WithListUsersDispatchThrottlingEnabled enabled =
     (\<lambda>s. s\<lparr>listUsersDispatchThrottlingEnabled := enabled\<rparr>)"

definition WithListUsersDispatchThrottlingThreshold :: "32 word \<Rightarrow> OpenFGAServiceV1Option" where
  "WithListUsersDispatchThrottlingThreshold threshold =
     (\<lambda>s. s\<lparr>listUsersDispatchDefaultThreshold := threshold\<rparr>)"

definition WithListUsersDispatchThrottlingMaxThreshold :: "32 word \<Rightarrow> OpenFGAServiceV1Option" where
  "WithListUsersDispatchThrottlingMaxThreshold maxThreshold =
     (\<lambda>s. s\<lparr>listUsersDispatchThrottlingMaxThreshold := maxThreshold\<rparr>)"

text \<open>
  The struct literal at the head of \<^verbatim>\<open>NewServerWithOpts\<close>. A field the literal does not
  name has its zero value: no datastore, no resolvers, no authorizer, and a
  \<^verbatim>\<open>checkDispatchThrottlingMaxThreshold\<close> of 0.
\<close>

definition initialServer :: "serverconfig \<Rightarrow> Server" where
  "initialServer c =
     \<lparr>datastore = None,
      resolveNodeLimit = DefaultResolveNodeLimit c,
      experimentals = [],
      FGAOnFGA = \<lparr>Enabled = False, FGAStoreID = [], FGAModelID = []\<rparr>,
      typesystemResolver = None,
      checkResolver = None,
      requestDurationByQueryHistogramBuckets = [50, 200],
      requestDurationByDispatchCountHistogramBuckets = [50, 200],
      checkDispatchThrottlingEnabled = DefaultCheckDispatchThrottlingEnabled c,
      checkDispatchThrottlingDefaultThreshold = DefaultCheckDispatchThrottlingDefaultThreshold c,
      checkDispatchThrottlingMaxThreshold = 0,
      listObjectsDispatchThrottlingEnabled = DefaultListObjectsDispatchThrottlingEnabled c,
      listObjectsDispatchDefaultThreshold = DefaultListObjectsDispatchThrottlingDefaultThreshold c,
      listObjectsDispatchThrottlingMaxThreshold = DefaultListObjectsDispatchThrottlingMaxThreshold c,
      listUsersDispatchThrottlingEnabled = DefaultListUsersDispatchThrottlingEnabled c,
      listUsersDispatchDefaultThreshold = DefaultListUsersDispatchThrottlingDefaultThreshold c,
      listUsersDispatchThrottlingMaxThreshold = DefaultListUsersDispatchThrottlingMaxThreshold c,
      authorizer = None\<rparr>"

text \<open>The loop \<^verbatim>\<open>for _, opt := range opts { opt(s) }\<close>.\<close>

definition applyOpts :: "OpenFGAServiceV1Option list \<Rightarrow> Server \<Rightarrow> Server" where
  "applyOpts opts s = fold (\<lambda>opt s'. opt s') opts s"

definition errNoDatastore :: error where
  "errNoDatastore = Errorf ''a datastore option must be provided''"

definition errQueryBuckets :: error where
  "errQueryBuckets = Errorf ''request duration datastore count buckets must not be empty''"

definition errDispatchBuckets :: error where
  "errDispatchBuckets = Errorf ''request duration by dispatch count buckets must not be empty''"

definition errCheckThreshold :: error where
  "errCheckThreshold = Errorf
     ''check default dispatch throttling threshold must be equal or smaller than max dispatch threshold for Check''"

definition errListObjectsThreshold :: error where
  "errListObjectsThreshold = Errorf
     ''ListObjects default dispatch throttling threshold must be equal or smaller than max dispatch threshold for ListObjects''"

definition errListUsersThreshold :: error where
  "errListUsersThreshold = Errorf
     ''ListUsers default dispatch throttling threshold must be equal or smaller than max dispatch threshold for ListUsers''"

text \<open>
  The part of \<^verbatim>\<open>NewServerWithOpts\<close> after the options are validated: the resolvers are
  built, the datastore is wrapped, and the authorizer is built when FGA-on-FGA is enabled.
  The throttlers it starts hold no state that a result depends on and are left out.
\<close>

definition buildServer :: "Builders \<Rightarrow> Server \<Rightarrow> OpenFGADatastore \<Rightarrow> error + Server" where
  "buildServer b s ds =
     (let s1 = s\<lparr>checkResolver := Some (NewOrderedCheckResolvers b s)\<rparr>;
          s2 = s1\<lparr>datastore := Some (NewCachedOpenFGADatastore b ds)\<rparr>;
          s3 = s2\<lparr>typesystemResolver :=
                    Some (MemoizedTypesystemResolverFunc b (NewCachedOpenFGADatastore b ds))\<rparr>
      in case validateFGAOnFGAEnabled s3 of
           Some err \<Rightarrow> Inl err
         | None \<Rightarrow>
             if fgaOnFgaIsEnabled s3
             then (case NewAuthorizer b (FGAOnFGA s3) of
                     Inl err \<Rightarrow> Inl err
                   | Inr a \<Rightarrow> Inr (s3\<lparr>authorizer := Some a\<rparr>))
             else Inr s3)"

text \<open>The three threshold checks of \<^verbatim>\<open>NewServerWithOpts\<close>, in the order of the source.\<close>

definition validateThresholds :: "Server \<Rightarrow> error option" where
  "validateThresholds s =
     (if checkDispatchThrottlingEnabled s
         \<and> checkDispatchThrottlingMaxThreshold s \<noteq> 0
         \<and> checkDispatchThrottlingDefaultThreshold s > checkDispatchThrottlingMaxThreshold s
      then Some errCheckThreshold
      else if listObjectsDispatchThrottlingMaxThreshold s \<noteq> 0
         \<and> listObjectsDispatchDefaultThreshold s > listObjectsDispatchThrottlingMaxThreshold s
      then Some errListObjectsThreshold
      else if listUsersDispatchThrottlingMaxThreshold s \<noteq> 0
         \<and> listUsersDispatchDefaultThreshold s > listUsersDispatchThrottlingMaxThreshold s
      then Some errListUsersThreshold
      else None)"

definition NewServerWithOpts :: "Builders \<Rightarrow> OpenFGAServiceV1Option list \<Rightarrow> error + Server" where
  "NewServerWithOpts b opts =
     (let s = applyOpts opts (initialServer (config b)) in
      case datastore s of
        None \<Rightarrow> Inl errNoDatastore
      | Some ds \<Rightarrow>
          if length (requestDurationByQueryHistogramBuckets s) = 0
          then Inl errQueryBuckets
          else if length (requestDurationByDispatchCountHistogramBuckets s) = 0
          then Inl errDispatchBuckets
          else (case validateThresholds s of
                  Some err \<Rightarrow> Inl err
                | None \<Rightarrow> buildServer b s ds))"

section \<open>The service\<close>

text \<open>
  The methods of the service and the handler of each. A response is the check response,
  the objects of ListObjects, the end of a stream, the page of ListStores, or the response
  of a command.
\<close>

datatype RPC =
    RPC_ListObjects
  | RPC_StreamedListObjects
  | RPC_Read
  | RPC_Write
  | RPC_Check
  | RPC_Expand
  | RPC_ReadAuthorizationModel
  | RPC_WriteAuthorizationModel
  | RPC_ReadAuthorizationModels
  | RPC_WriteAssertions
  | RPC_ReadAssertions
  | RPC_ReadChanges
  | RPC_CreateStore
  | RPC_DeleteStore
  | RPC_GetStore
  | RPC_ListStores

datatype 'r Response =
    CheckResp CheckResponse
  | ListObjectsResp "string list"
  | StreamEnd
  | ListStoresResp ListStoresResponse
  | CommandResp 'r

definition respond :: "('a \<Rightarrow> 'b) \<Rightarrow> 'a io \<Rightarrow> 'b io" where
  "respond f m = (case m of (Inl e, l) \<Rightarrow> (Inl e, l) | (Inr x, l) \<Rightarrow> (Inr (f x), l))"

fun serve :: "'r Deps \<Rightarrow> Server \<Rightarrow> Context \<Rightarrow> RPC \<Rightarrow> Request \<Rightarrow> 'r Response io" where
  "serve d s ctx RPC_ListObjects req = respond ListObjectsResp (ListObjects d s ctx req)"
| "serve d s ctx RPC_StreamedListObjects req = respond (\<lambda>_. StreamEnd) (StreamedListObjects d s ctx req)"
| "serve d s ctx RPC_Read req = respond CommandResp (Read d s ctx req)"
| "serve d s ctx RPC_Write req = respond CommandResp (Write d s ctx req)"
| "serve d s ctx RPC_Check req = respond CheckResp (Check d s ctx req)"
| "serve d s ctx RPC_Expand req = respond CommandResp (Expand d s ctx req)"
| "serve d s ctx RPC_ReadAuthorizationModel req = respond CommandResp (ReadAuthorizationModel d s ctx req)"
| "serve d s ctx RPC_WriteAuthorizationModel req = respond CommandResp (WriteAuthorizationModel d s ctx req)"
| "serve d s ctx RPC_ReadAuthorizationModels req = respond CommandResp (ReadAuthorizationModels d s ctx req)"
| "serve d s ctx RPC_WriteAssertions req = respond CommandResp (WriteAssertions d s ctx req)"
| "serve d s ctx RPC_ReadAssertions req = respond CommandResp (ReadAssertions d s ctx req)"
| "serve d s ctx RPC_ReadChanges req = respond CommandResp (ReadChanges d s ctx req)"
| "serve d s ctx RPC_CreateStore req = respond CommandResp (CreateStore d s ctx req)"
| "serve d s ctx RPC_DeleteStore req = respond CommandResp (DeleteStore d s ctx req)"
| "serve d s ctx RPC_GetStore req = respond CommandResp (GetStore d s ctx req)"
| "serve d s ctx RPC_ListStores req = respond ListStoresResp (ListStores d s ctx req)"

text \<open>The method name that the handler passes to \<^verbatim>\<open>CheckAuthz\<close>.\<close>

fun apiMethod :: "RPC \<Rightarrow> string" where
  "apiMethod RPC_ListObjects = ''ListObjects''"
| "apiMethod RPC_StreamedListObjects = ''StreamedListObjects''"
| "apiMethod RPC_Read = ''Read''"
| "apiMethod RPC_Write = ''Write''"
| "apiMethod RPC_Check = ''Check''"
| "apiMethod RPC_Expand = ''Expand''"
| "apiMethod RPC_ReadAuthorizationModel = ''ReadAuthorizationModel''"
| "apiMethod RPC_WriteAuthorizationModel = ''WriteAuthorizationModel''"
| "apiMethod RPC_ReadAuthorizationModels = ''ReadAuthorizationModels''"
| "apiMethod RPC_WriteAssertions = ''WriteAssertions''"
| "apiMethod RPC_ReadAssertions = ''ReadAssertions''"
| "apiMethod RPC_ReadChanges = ''ReadChanges''"
| "apiMethod RPC_CreateStore = ''CreateStore''"
| "apiMethod RPC_DeleteStore = ''DeleteStore''"
| "apiMethod RPC_GetStore = ''GetStore''"
| "apiMethod RPC_ListStores = ''ListStores''"




text \<open>The request passes the validation block of a handler.\<close>

definition requestValid :: "'r Deps \<Rightarrow> Context \<Rightarrow> Request \<Rightarrow> bool" where
  "requestValid d ctx req = (RequestIsValidatedFromContext ctx \<or> Validate d req = None)"

text \<open>
  A Check request gets as far as the resolver: the consistency preference, the request,
  the key and the contextual tuples are valid, and the model resolves to \<open>typesys\<close>.
\<close>

definition reachesResolver :: "'r Deps \<Rightarrow> Server \<Rightarrow> Context \<Rightarrow> Request \<Rightarrow> TypeSystem \<Rightarrow> bool" where
  "reachesResolver d s ctx req typesys =
     (validateConsistencyRequest s (GetConsistency req) = None
      \<and> requestValid d ctx req
      \<and> (case typesystemResolver s of
            None \<Rightarrow> False
          | Some resolver \<Rightarrow>
              resolver (GetStoreId req) (GetAuthorizationModelId req) = Inr typesys)
      \<and> ValidateUserObjectRelation d typesys (GetTupleKey req) = None
      \<and> validateContextualTuples d typesys (GetContextualTuples req) = None)"


text \<open>The model of the request resolves to \<open>typesys\<close>.\<close>

definition resolvesTo :: "Server \<Rightarrow> Request \<Rightarrow> TypeSystem \<Rightarrow> bool" where
  "resolvesTo s req typesys =
     (case typesystemResolver s of
        None \<Rightarrow> False
      | Some resolver \<Rightarrow>
          resolver (GetStoreId req) (GetAuthorizationModelId req) = Inr typesys)"

section \<open>The cache layer of the check resolver\<close>








section \<open>A concrete deployment\<close>

text \<open>
  One instance of every parameter, on which the handlers can be run: a type system with a
  module for \<open>document\<close> and none for \<open>folder\<close>, an authorizer that allows the client
  \<open>admin\<close> only, a resolver whose answer depends on the user of the key, and commands that
  answer with their own name.
\<close>

definition exampleSplitObject :: "string \<Rightarrow> string \<times> string" where
  "exampleSplitObject object =
     (if CHR '':'' \<in> set object
      then (takeWhile (\<lambda>c. c \<noteq> CHR '':'') object, tl (dropWhile (\<lambda>c. c \<noteq> CHR '':'') object))
      else ([], object))"

definition exampleTypeSystem :: TypeSystem where
  "exampleTypeSystem =
     \<lparr>GetAuthorizationModelID = ''model-1'',
      GetModuleForObjectTypeRelation = (\<lambda>objectType relation.
        if objectType = ''document'' then Inr ''docs''
        else if objectType = ''folder'' then Inr []
        else Inl (Errorf ''type not found''))\<rparr>"

definition exampleStores :: ListStoresResponse where
  "exampleStores =
     \<lparr>Stores = [\<lparr>GetId = ''store-1'', GetName = ''root''\<rparr>, \<lparr>GetId = ''store-2'', GetName = ''test''\<rparr>],
      ContinuationToken = ''next''\<rparr>"

definition exampleDeps :: "string Deps" where
  "exampleDeps =
     \<lparr>AuthorizationModelResolutionTooComplex = Status (OtherCode 2002) ''too complex'',
      ThrottledTimeout = Status (OtherCode 3002) ''throttled timeout'',
      ValidationError = Wrapf ''validation error'',
      HandleError = (\<lambda>public. Wrapf ''internal error''),
      HandleTupleValidateError = Wrapf ''invalid tuple'',
      NewInternalError = (\<lambda>public. Wrapf ''internal error''),
      LatestAuthorizationModelNotFound = (\<lambda>storeID. Status (OtherCode 2020) storeID),
      AuthorizationModelNotFound = (\<lambda>modelID. Status (OtherCode 2001) modelID),
      Validate = (\<lambda>req. if GetStoreId req = [] then Some ''invalid StoreId'' else None),
      ValidateUserObjectRelation = (\<lambda>typesys tk. None),
      ValidateTuple = (\<lambda>typesys tk. None),
      SplitObject = exampleSplitObject,
      XHttpCode = ''X-Http-Code'',
      NewListObjectsQuery = None,
      ListObjectsExecute = (\<lambda>req. Inr [''document:1'']),
      ListObjectsExecuteStreamed = (\<lambda>req. None),
      ListStoresExecute = (\<lambda>req. Inr exampleStores),
      Execute = (\<lambda>name req. Inr name)\<rparr>"

definition exampleAuthorizer :: Authorizer where
  "exampleAuthorizer =
     \<lparr>Authorize = (\<lambda>clientID storeID method modules. Inr (clientID = ''admin'')),
      AuthorizeCreateStore = (\<lambda>clientID. Inr (clientID = ''admin'')),
      ListAuthorizedStores = (\<lambda>clientID.
        Inr (if clientID = ''admin'' then [''store-1'', ''store-2'']
             else if clientID = ''reader'' then [''store-2'']
             else []))\<rparr>"

definition exampleResolver :: CheckResolver where
  "exampleResolver req =
     (let user = GetUser (ResolveTupleKey req); metadata = RequestMetadata req in
      if user = ''user:deep''
      then (Inl (Wrapf ''check failed'' (Named ErrResolutionDepthExceeded)), metadata)
      else if user = ''user:slow''
      then (Inl (Named DeadlineExceeded), metadata\<lparr>WasThrottled := True\<rparr>)
      else if user = ''user:late''
      then (Inl (Named DeadlineExceeded), metadata)
      else if user = ''user:both''
      then (Inl (Joined [Named DeadlineExceeded, Named ErrResolutionDepthExceeded]),
            metadata\<lparr>WasThrottled := True\<rparr>)
      else (Inr \<lparr>Allowed = (user = ''user:anne''), DatastoreQueryCount = 1\<rparr>, metadata))"

definition exampleServer :: Server where
  "exampleServer =
     \<lparr>datastore = Some (Datastore ''memory''),
      resolveNodeLimit = 25,
      experimentals = [],
      FGAOnFGA = \<lparr>Enabled = False, FGAStoreID = [], FGAModelID = []\<rparr>,
      typesystemResolver = Some (\<lambda>storeID modelID.
        if modelID = ''missing'' then Inl (Named ErrModelNotFound) else Inr exampleTypeSystem),
      checkResolver = Some exampleResolver,
      requestDurationByQueryHistogramBuckets = [50, 200],
      requestDurationByDispatchCountHistogramBuckets = [50, 200],
      checkDispatchThrottlingEnabled = False,
      checkDispatchThrottlingDefaultThreshold = 100,
      checkDispatchThrottlingMaxThreshold = 0,
      listObjectsDispatchThrottlingEnabled = False,
      listObjectsDispatchDefaultThreshold = 100,
      listObjectsDispatchThrottlingMaxThreshold = 0,
      listUsersDispatchThrottlingEnabled = False,
      listUsersDispatchDefaultThreshold = 100,
      listUsersDispatchThrottlingMaxThreshold = 0,
      authorizer = None\<rparr>"

text \<open>The same server with FGA-on-FGA enabled and the authorizer in place.\<close>

definition exampleAuthzServer :: Server where
  "exampleAuthzServer =
     exampleServer\<lparr>experimentals := [ExperimentalFGAOnFGAParams],
       FGAOnFGA := \<lparr>Enabled = True, FGAStoreID = ''store-1'', FGAModelID = ''model-0''\<rparr>,
       authorizer := Some exampleAuthorizer\<rparr>"

definition clientContext :: "string \<Rightarrow> Context" where
  "clientContext clientID =
     \<lparr>AuthClaimsFromContext = Some \<lparr>ClientID = clientID\<rparr>, RequestIsValidatedFromContext = False\<rparr>"

definition checkRequestFor :: "string \<Rightarrow> Request" where
  "checkRequestFor user =
     zeroRequest\<lparr>GetStoreId := ''store-2'',
       GetTupleKey := \<lparr>GetObject = ''document:1'', GetRelation = ''viewer'', GetUser = user\<rparr>\<rparr>"

definition documentTuple :: TupleKey where
  "documentTuple = \<lparr>GetObject = ''document:1'', GetRelation = ''viewer'', GetUser = ''user:anne''\<rparr>"

definition folderTuple :: TupleKey where
  "folderTuple = \<lparr>GetObject = ''folder:1'', GetRelation = ''viewer'', GetUser = ''user:anne''\<rparr>"

definition writeRequest :: "TupleKey list \<Rightarrow> TupleKey list \<Rightarrow> Request" where
  "writeRequest writes deletes =
     zeroRequest\<lparr>GetStoreId := ''store-2'', GetWrites := writes, GetDeletes := deletes\<rparr>"




definition exampleBuilders :: Builders where
  "exampleBuilders =
     \<lparr>config =
        \<lparr>DefaultResolveNodeLimit = 25,
         DefaultCheckDispatchThrottlingEnabled = False,
         DefaultCheckDispatchThrottlingDefaultThreshold = 100,
         DefaultListObjectsDispatchThrottlingEnabled = False,
         DefaultListObjectsDispatchThrottlingDefaultThreshold = 100,
         DefaultListObjectsDispatchThrottlingMaxThreshold = 0,
         DefaultListUsersDispatchThrottlingEnabled = False,
         DefaultListUsersDispatchThrottlingDefaultThreshold = 100,
         DefaultListUsersDispatchThrottlingMaxThreshold = 0\<rparr>,
      NewOrderedCheckResolvers = (\<lambda>s. exampleResolver),
      NewCachedOpenFGADatastore = (\<lambda>ds. ds),
      MemoizedTypesystemResolverFunc = (\<lambda>ds storeID modelID. Inr exampleTypeSystem),
      NewAuthorizer = (\<lambda>c. Inr exampleAuthorizer)\<rparr>"

section \<open>Sequencing and the gates: basic facts\<close>


lemma andThen_Inr: "andThen (Inr x, l) f = (fst (f x), l @ snd (f x))"
  by (simp add: andThen_def split: prod.splits)


lemma andThen_ret: "andThen (ret x) f = f x"
  by (simp add: andThen_def ret_def split: prod.splits)


lemma check_None: "check None = ret ()"
  by (simp add: check_def)



lemma respond_Inr: "respond f (Inr x, l) = (Inr (f x), l)"
  by (simp add: respond_def)

lemma validateRequest_valid: "requestValid d ctx req \<Longrightarrow> validateRequest d ctx req = ret ()"
  by (auto simp: requestValid_def validateRequest_def)






lemma resolveTypesystem_ok:
  assumes "typesystemResolver s = Some tr" and "tr storeID modelID = Inr typesys"
  shows "resolveTypesystem d s storeID modelID =
           (Inr typesys, [SetHeader AuthorizationModelIDHeader (GetAuthorizationModelID typesys)])"
  using assms by (simp add: resolveTypesystem_def emit_def andThen_Inr ret_def)
















section \<open>Precedence of the gate\<close>







section \<open>The errors of the gate\<close>







section \<open>The errors of the resolver\<close>

text \<open>
  A Check that passes the gate and gets as far as the resolver returns what the resolver
  returns, with the error mapped by \<open>checkError\<close>.
\<close>

lemma Check_at_resolver:
  assumes "CheckAuthz s ctx (GetStoreId req) ''Check'' [] = None"
    and "reachesResolver d s ctx req typesys"
    and "checkResolver s = Some resolver"
  shows "Check d s ctx req =
           (case resolver (resolveCheckRequest s req typesys) of
              (Inl err, metadata) \<Rightarrow> Inl (checkError d err metadata)
            | (Inr resp, metadata) \<Rightarrow> Inr \<lparr>GetAllowed = Allowed resp\<rparr>,
            [SetHeader AuthorizationModelIDHeader (GetAuthorizationModelID typesys),
             Executed ''Check''])"
proof -
  from assms(2) obtain tr where tr: "typesystemResolver s = Some tr"
    "tr (GetStoreId req) (GetAuthorizationModelId req) = Inr typesys"
    by (auto simp: reachesResolver_def split: option.splits)
  from assms(2) have v: "validateConsistencyRequest s (GetConsistency req) = None"
    "requestValid d ctx req"
    "ValidateUserObjectRelation d typesys (GetTupleKey req) = None"
    "validateContextualTuples d typesys (GetContextualTuples req) = None"
    by (simp_all add: reachesResolver_def)
  show ?thesis
    by (simp add: Check_def CheckWithoutAuthz_def assms(1) assms(3) v check_None andThen_ret
        validateRequest_valid resolveTypesystem_ok [OF tr] andThen_Inr run_def)
qed

lemma reachesResolver_example:
  "reachesResolver exampleDeps exampleServer Background (checkRequestFor user) exampleTypeSystem"
  by (simp add: reachesResolver_def validateConsistencyRequest_def requestValid_def
      exampleDeps_def exampleServer_def checkRequestFor_def zeroRequest_def Background_def)


text \<open>
  Claim C2. When a Check request reaches the resolver and the resolver returns an error that
  is the resolution-depth-exceeded error, the call returns the error
  \<^verbatim>\<open>serverErrors.AuthorizationModelResolutionTooComplex\<close>: an error, not a response with
  \<open>allowed = false\<close>, and that typed value, not the result of the generic \<^verbatim>\<open>HandleError\<close>.
\<close>

theorem check_depth_exceeded_too_complex:
  assumes "CheckAuthz s ctx (GetStoreId req) ''Check'' [] = None"
    and "reachesResolver d s ctx req typesys"
    and "checkResolver s = Some resolver"
    and "resolver (resolveCheckRequest s req typesys) = (Inl err, metadata)"
    and "errors_Is err ErrResolutionDepthExceeded"
  shows "fst (Check d s ctx req) = Inl (AuthorizationModelResolutionTooComplex d)"
  using assms(4,5) by (simp add: Check_at_resolver [OF assms(1-3)] checkError_def)


text \<open>The theorem at work: the resolver of the example gives up on the user \<open>user:deep\<close>.\<close>

theorem check_depth_exceeded_too_complex_witness:
  "fst (Check exampleDeps exampleServer Background (checkRequestFor ''user:deep''))
     = Inl (Status (OtherCode 2002) ''too complex'')"
proof -
  have h: "CheckAuthz exampleServer Background (GetStoreId (checkRequestFor ''user:deep'')) ''Check'' [] = None"
    "reachesResolver exampleDeps exampleServer Background (checkRequestFor ''user:deep'') exampleTypeSystem"
    by (simp add: CheckAuthz_def exampleServer_def) (rule reachesResolver_example)
  have r: "checkResolver exampleServer = Some exampleResolver"
    by (simp add: exampleServer_def)
  have e: "exampleResolver (resolveCheckRequest exampleServer (checkRequestFor ''user:deep'') exampleTypeSystem)
            = (Inl (Wrapf ''check failed'' (Named ErrResolutionDepthExceeded)),
               NewCheckRequestMetadata 25)"
    by code_simp
  have i: "errors_Is (Wrapf ''check failed'' (Named ErrResolutionDepthExceeded)) ErrResolutionDepthExceeded"
    by simp
  have t: "AuthorizationModelResolutionTooComplex exampleDeps = Status (OtherCode 2002) ''too complex''"
    by (simp add: exampleDeps_def)
  from check_depth_exceeded_too_complex [OF h r e i] t show ?thesis
    by simp
qed


text \<open>
  Claim C3, as the code has it. When a Check request reaches the resolver and the resolver
  returns a deadline-exceeded error, the tests for the resolution-depth-exceeded error and
  for the failed evaluation of a condition come first, and an error with several causes can
  match them as well. If it matches neither, the call returns
  \<^verbatim>\<open>serverErrors.ThrottledTimeout\<close> if the metadata of the request says that it was
  throttled, and otherwise what the generic \<^verbatim>\<open>HandleError\<close> makes of the error.
\<close>

theorem check_throttled_timeout:
  assumes "CheckAuthz s ctx (GetStoreId req) ''Check'' [] = None"
    and "reachesResolver d s ctx req typesys"
    and "checkResolver s = Some resolver"
    and "resolver (resolveCheckRequest s req typesys) = (Inl err, metadata)"
    and "errors_Is err DeadlineExceeded"
  shows "fst (Check d s ctx req) =
           Inl (if errors_Is err ErrResolutionDepthExceeded
                then AuthorizationModelResolutionTooComplex d
                else if errors_Is err ErrEvaluationFailed
                then ValidationError d err
                else if WasThrottled metadata
                then ThrottledTimeout d
                else HandleError d [] err)"
  using assms(4,5) by (simp add: Check_at_resolver [OF assms(1-3)] checkError_def)


text \<open>
  The theorem at work: the request of \<open>user:slow\<close> is throttled and runs out of time, the
  request of \<open>user:late\<close> runs out of time without having been throttled.
\<close>

theorem check_throttled_timeout_witness:
  "fst (Check exampleDeps exampleServer Background (checkRequestFor ''user:slow''))
     = Inl (Status (OtherCode 3002) ''throttled timeout'')
   \<and> fst (Check exampleDeps exampleServer Background (checkRequestFor ''user:late''))
     = Inl (Wrapf ''internal error'' (Named DeadlineExceeded))"
proof -
  have r: "checkResolver exampleServer = Some exampleResolver"
    by (simp add: exampleServer_def)
  have i: "errors_Is (Named DeadlineExceeded) DeadlineExceeded"
    "\<not> errors_Is (Named DeadlineExceeded) ErrResolutionDepthExceeded"
    "\<not> errors_Is (Named DeadlineExceeded) ErrEvaluationFailed"
    by simp_all
  have t: "ThrottledTimeout exampleDeps = Status (OtherCode 3002) ''throttled timeout''"
    "HandleError exampleDeps [] (Named DeadlineExceeded) = Wrapf ''internal error'' (Named DeadlineExceeded)"
    by (simp_all add: exampleDeps_def)
  have h1: "CheckAuthz exampleServer Background (GetStoreId (checkRequestFor ''user:slow'')) ''Check'' [] = None"
    "reachesResolver exampleDeps exampleServer Background (checkRequestFor ''user:slow'') exampleTypeSystem"
    by (simp add: CheckAuthz_def exampleServer_def) (rule reachesResolver_example)
  have e1: "exampleResolver (resolveCheckRequest exampleServer (checkRequestFor ''user:slow'') exampleTypeSystem)
            = (Inl (Named DeadlineExceeded), (NewCheckRequestMetadata 25)\<lparr>WasThrottled := True\<rparr>)"
    by code_simp
  have h2: "CheckAuthz exampleServer Background (GetStoreId (checkRequestFor ''user:late'')) ''Check'' [] = None"
    "reachesResolver exampleDeps exampleServer Background (checkRequestFor ''user:late'') exampleTypeSystem"
    by (simp add: CheckAuthz_def exampleServer_def) (rule reachesResolver_example)
  have e2: "exampleResolver (resolveCheckRequest exampleServer (checkRequestFor ''user:late'') exampleTypeSystem)
            = (Inl (Named DeadlineExceeded), NewCheckRequestMetadata 25)"
    by code_simp
  from check_throttled_timeout [OF h1 r e1 i(1)] check_throttled_timeout [OF h2 r e2 i(1)] t i
  show ?thesis
    by (simp add: NewCheckRequestMetadata_def)
qed


text \<open>
  Claim C3 as stated fails for an error joined of the deadline-exceeded and the
  depth-exceeded error: the request was throttled, and the call returns the too-complex
  error, not the throttled timeout.
\<close>

theorem check_deadline_joined_with_depth:
  "exampleResolver (resolveCheckRequest exampleServer (checkRequestFor ''user:both'') exampleTypeSystem)
     = (Inl (Joined [Named DeadlineExceeded, Named ErrResolutionDepthExceeded]),
        \<lparr>Depth = 25, DispatchCounter = 0, WasThrottled = True\<rparr>)
   \<and> errors_Is (Joined [Named DeadlineExceeded, Named ErrResolutionDepthExceeded]) DeadlineExceeded
   \<and> fst (Check exampleDeps exampleServer Background (checkRequestFor ''user:both''))
     = Inl (Status (OtherCode 2002) ''too complex'')
   \<and> ThrottledTimeout exampleDeps = Status (OtherCode 3002) ''throttled timeout''"
  by code_simp


section \<open>The consistency preference\<close>


lemma reachesResolver_resolvesTo:
  "reachesResolver d s ctx req typesys \<Longrightarrow> resolvesTo s req typesys"
  by (simp add: reachesResolver_def resolvesTo_def)














section \<open>The modules of a write request\<close>

text \<open>
  Claim C6 at a batch that writes a tuple of a type with a module and deletes a tuple of a
  type without one: the modules handed to the gate are those of the writes, not the empty
  list of the store-scoped check. The same tuple among the writes does give the empty list.
\<close>

theorem delete_without_module_keeps_modules:
  "getModulesForWriteRequest exampleDeps (writeRequest [documentTuple] [folderTuple]) exampleTypeSystem
     = Inr [''docs'']
   \<and> getModulesForWriteRequest exampleDeps (writeRequest [documentTuple, folderTuple] []) exampleTypeSystem
     = Inr []"
  by code_simp


section \<open>ListStores\<close>

text \<open>
  Claim C7. With an authorizer in place, a ListStores call of a client whose claims are in
  the context, whose request is valid and whose list of authorized stores the authorizer
  returns, is answered and not denied: the stores of the response are those of the page of
  the underlying query whose id is in the list of the authorizer, in the order of the page
  (none if the list is empty), and the continuation token is the one of the page.
\<close>

theorem listStores_filters_to_authorized:
  assumes "authorizer s = Some a"
    and "AuthClaimsFromContext ctx = Some claims"
    and "ListAuthorizedStores a (ClientID claims) = Inr list"
    and "requestValid d ctx req"
    and "ListStoresExecute d req = Inr resp"
  shows "ListStores d s ctx req =
           (Inr \<lparr>Stores = filter (\<lambda>store. GetId store \<in> set list) (Stores resp),
                 ContinuationToken = ContinuationToken resp\<rparr>,
            [Executed ''ListStores''])"
  using assms
  by (simp add: ListStores_def validateRequest_valid andThen_ret CheckAuthzListStores_def lift_def
      andThen_Inr run_def ret_def storesMapOf_def)


text \<open>
  The theorem at work: \<open>reader\<close> may see the second store of the page, \<open>guest\<close> none.
\<close>

theorem listStores_filters_to_authorized_witness:
  "ListStores exampleDeps exampleAuthzServer (clientContext ''reader'') (checkRequestFor ''user:anne'')
     = (Inr \<lparr>Stores = [\<lparr>GetId = ''store-2'', GetName = ''test''\<rparr>], ContinuationToken = ''next''\<rparr>,
        [Executed ''ListStores''])
   \<and> ListStores exampleDeps exampleAuthzServer (clientContext ''guest'') (checkRequestFor ''user:anne'')
     = (Inr \<lparr>Stores = [], ContinuationToken = ''next''\<rparr>, [Executed ''ListStores''])"
proof -
  have a: "authorizer exampleAuthzServer = Some exampleAuthorizer"
    by (simp add: exampleAuthzServer_def)
  have q: "ListStoresExecute exampleDeps (checkRequestFor ''user:anne'') = Inr exampleStores"
    by (simp add: exampleDeps_def)
  have r: "AuthClaimsFromContext (clientContext ''reader'') = Some \<lparr>ClientID = ''reader''\<rparr>"
    "ListAuthorizedStores exampleAuthorizer (ClientID \<lparr>ClientID = ''reader''\<rparr>) = Inr [''store-2'']"
    "requestValid exampleDeps (clientContext ''reader'') (checkRequestFor ''user:anne'')"
    by code_simp+
  have g: "AuthClaimsFromContext (clientContext ''guest'') = Some \<lparr>ClientID = ''guest''\<rparr>"
    "ListAuthorizedStores exampleAuthorizer (ClientID \<lparr>ClientID = ''guest''\<rparr>) = Inr []"
    "requestValid exampleDeps (clientContext ''guest'') (checkRequestFor ''user:anne'')"
    by code_simp+
  from listStores_filters_to_authorized [OF a r q] listStores_filters_to_authorized [OF a g q]
  show ?thesis
    by (simp add: exampleStores_def)
qed


text \<open>
  Claim C10. On a server without an authorizer \<^verbatim>\<open>CheckAuthzListStores\<close> returns a nil
  list and no error, and a valid ListStores request is answered with no store at all,
  whatever the page of the underlying query holds, and with the continuation token of
  that page.
\<close>

theorem listStores_without_authorizer_empty:
  assumes "authorizer s = None"
  shows "CheckAuthzListStores s ctx = Inr None
         \<and> (requestValid d ctx req \<and> ListStoresExecute d req = Inr resp
            \<longrightarrow> ListStores d s ctx req =
                  (Inr \<lparr>Stores = [], ContinuationToken = ContinuationToken resp\<rparr>,
                   [Executed ''ListStores'']))"
  using assms
  by (simp add: ListStores_def validateRequest_valid andThen_ret CheckAuthzListStores_def lift_def
      andThen_Inr run_def ret_def storesMapOf_def)


text \<open>The theorem at work: the page of the query holds two stores, the response none.\<close>

theorem listStores_without_authorizer_empty_witness:
  "CheckAuthzListStores exampleServer Background = Inr None
   \<and> Stores exampleStores \<noteq> []
   \<and> ListStores exampleDeps exampleServer Background (checkRequestFor ''user:anne'')
     = (Inr \<lparr>Stores = [], ContinuationToken = ''next''\<rparr>, [Executed ''ListStores''])"
proof -
  have a: "authorizer exampleServer = None"
    by (simp add: exampleServer_def)
  have q: "ListStoresExecute exampleDeps (checkRequestFor ''user:anne'') = Inr exampleStores"
    by (simp add: exampleDeps_def)
  have v: "requestValid exampleDeps Background (checkRequestFor ''user:anne'')"
    by code_simp
  from listStores_without_authorizer_empty [OF a, where ctx = Background and d = exampleDeps
      and req = "checkRequestFor ''user:anne''" and resp = exampleStores] q v
  show ?thesis
    by (simp add: exampleStores_def)
qed

section \<open>Status headers\<close>

text \<open>
  What a handler has logged when it returns a response: the steps before the command log
  nothing but the model-id header of the type-system resolution.
\<close>

lemma andThen_fst_Inr:
  "fst (andThen m f) = Inr r \<longleftrightarrow> (\<exists>x. fst m = Inr x \<and> fst (f x) = Inr r)"
  by (cases m; cases "fst m") (auto simp: andThen_def split: prod.splits)

lemma andThen_snd_Inr:
  "fst m = Inr x \<Longrightarrow> snd (andThen m f) = snd m @ snd (f x)"
  by (cases m) (auto simp: andThen_def split: prod.splits)

lemma fst_check: "fst (check r) = Inr x \<longleftrightarrow> r = None"
  by (cases r) (simp_all add: check_def raise_def ret_def)

lemma snd_check: "snd (check r) = []"
  by (cases r) (simp_all add: check_def raise_def ret_def)

lemma snd_validateRequest: "snd (validateRequest d ctx req) = []"
  by (simp add: validateRequest_def raise_def ret_def split: option.splits)

lemma resolveTypesystem_log:
  "fst (resolveTypesystem d s storeID modelID) = Inr typesys
   \<Longrightarrow> snd (resolveTypesystem d s storeID modelID)
         = [SetHeader AuthorizationModelIDHeader (GetAuthorizationModelID typesys)]"
  by (auto simp: resolveTypesystem_def raise_def emit_def ret_def andThen_def
      split: option.splits sum.splits if_splits)

lemma CreateStore_success:
  assumes "fst (CreateStore d s ctx req) = Inr res"
  shows "snd (CreateStore d s ctx req) = [Executed ''CreateStore'', SetHeader (XHttpCode d) ''201'']"
  using assms unfolding CreateStore_def
  by (auto simp: andThen_fst_Inr andThen_snd_Inr fst_check snd_check snd_validateRequest
      run_def emit_def ret_def)

lemma DeleteStore_success:
  assumes "fst (DeleteStore d s ctx req) = Inr res"
  shows "snd (DeleteStore d s ctx req) = [Executed ''DeleteStore'', SetHeader (XHttpCode d) ''204'']"
  using assms unfolding DeleteStore_def
  by (auto simp: andThen_fst_Inr andThen_snd_Inr fst_check snd_check snd_validateRequest
      run_def emit_def ret_def)

lemma WriteAuthorizationModel_success:
  assumes "fst (WriteAuthorizationModel d s ctx req) = Inr res"
  shows "snd (WriteAuthorizationModel d s ctx req)
           = [Executed ''WriteAuthorizationModel'', SetHeader (XHttpCode d) ''201'']"
  using assms unfolding WriteAuthorizationModel_def
  by (auto simp: andThen_fst_Inr andThen_snd_Inr fst_check snd_check snd_validateRequest
      run_def emit_def ret_def)

lemma WriteAssertions_success:
  assumes "fst (WriteAssertions d s ctx req) = Inr res"
  shows "SetHeader (XHttpCode d) ''204'' \<in> set (snd (WriteAssertions d s ctx req))"
  using assms unfolding WriteAssertions_def
  by (auto simp: andThen_fst_Inr andThen_snd_Inr fst_check snd_check snd_validateRequest
      run_def emit_def ret_def)

lemma snd_write_gate:
  "snd (if c then andThen (lift m) (\<lambda>modules. check (g modules)) else ret ()) = []"
  by (cases m) (auto simp: andThen_def lift_def ret_def snd_check split: prod.splits)

lemma Write_success:
  assumes "fst (Write d s ctx req) = Inr res" and "XHttpCode d \<noteq> AuthorizationModelIDHeader"
  shows "SetHeader (XHttpCode d) v \<notin> set (snd (Write d s ctx req))"
  using assms unfolding Write_def
  by (auto simp: andThen_fst_Inr andThen_snd_Inr snd_validateRequest resolveTypesystem_log
      snd_write_gate run_def)


text \<open>
  Claim C8, as the code has it. On success CreateStore and WriteAuthorizationModel set the
  status-code header to 201 and DeleteStore and WriteAssertions set it to 204, each after
  its command has run. A successful Write of tuples sets no status-code header at all: the
  only header it sets is the model-id header of the type-system resolution.
\<close>

theorem status_headers_on_success:
  "(fst (CreateStore d s ctx req) = Inr res
      \<longrightarrow> snd (CreateStore d s ctx req)
            = [Executed ''CreateStore'', SetHeader (XHttpCode d) ''201''])
   \<and> (fst (WriteAuthorizationModel d s ctx req) = Inr res
      \<longrightarrow> snd (WriteAuthorizationModel d s ctx req)
            = [Executed ''WriteAuthorizationModel'', SetHeader (XHttpCode d) ''201''])
   \<and> (fst (DeleteStore d s ctx req) = Inr res
      \<longrightarrow> snd (DeleteStore d s ctx req)
            = [Executed ''DeleteStore'', SetHeader (XHttpCode d) ''204''])
   \<and> (fst (WriteAssertions d s ctx req) = Inr res
      \<longrightarrow> SetHeader (XHttpCode d) ''204'' \<in> set (snd (WriteAssertions d s ctx req)))
   \<and> (fst (Write d s ctx req) = Inr res \<and> XHttpCode d \<noteq> AuthorizationModelIDHeader
      \<longrightarrow> SetHeader (XHttpCode d) v \<notin> set (snd (Write d s ctx req)))"
  using CreateStore_success [of d s ctx req res] WriteAuthorizationModel_success [of d s ctx req res]
    DeleteStore_success [of d s ctx req res] WriteAssertions_success [of d s ctx req res]
    Write_success [of d s ctx req res v]
  by blast


text \<open>The theorem at work on the example server, without an authorizer.\<close>

theorem status_headers_on_success_witness:
  "snd (CreateStore exampleDeps exampleServer Background (checkRequestFor ''user:anne''))
     = [Executed ''CreateStore'', SetHeader ''X-Http-Code'' ''201'']
   \<and> SetHeader ''X-Http-Code'' ''204''
       \<in> set (snd (WriteAssertions exampleDeps exampleServer Background (checkRequestFor ''user:anne'')))
   \<and> SetHeader ''X-Http-Code'' ''204''
       \<notin> set (snd (Write exampleDeps exampleServer Background (writeRequest [documentTuple] [])))"
proof -
  let ?req = "checkRequestFor ''user:anne''"
  have c: "fst (CreateStore exampleDeps exampleServer Background ?req) = Inr ''CreateStore''"
    and a: "fst (WriteAssertions exampleDeps exampleServer Background ?req) = Inr ''WriteAssertions''"
    and w: "fst (Write exampleDeps exampleServer Background (writeRequest [documentTuple] []))
            = Inr ''Write''"
    and x: "XHttpCode exampleDeps = ''X-Http-Code''"
      "XHttpCode exampleDeps \<noteq> AuthorizationModelIDHeader"
    by code_simp+
  from status_headers_on_success [where d = exampleDeps and s = exampleServer and ctx = Background
      and req = ?req and res = "''CreateStore''" and v = "''204''"] c x
  have 1: "snd (CreateStore exampleDeps exampleServer Background ?req)
           = [Executed ''CreateStore'', SetHeader ''X-Http-Code'' ''201'']"
    by simp
  from status_headers_on_success [where d = exampleDeps and s = exampleServer and ctx = Background
      and req = ?req and res = "''WriteAssertions''" and v = "''204''"] a x
  have 2: "SetHeader ''X-Http-Code'' ''204''
       \<in> set (snd (WriteAssertions exampleDeps exampleServer Background ?req))"
    by simp
  from status_headers_on_success [where d = exampleDeps and s = exampleServer and ctx = Background
      and req = "writeRequest [documentTuple] []" and res = "''Write''" and v = "''204''"] w x
  have 3: "SetHeader ''X-Http-Code'' ''204''
       \<notin> set (snd (Write exampleDeps exampleServer Background (writeRequest [documentTuple] [])))"
    by simp
  from 1 2 3 show ?thesis by simp
qed


text \<open>
  Claim C8 as stated fails for Write: the call succeeds, and its whole log is the model-id
  header and the command.
\<close>

theorem write_sets_no_status_header:
  "serve exampleDeps exampleServer Background RPC_Write (writeRequest [documentTuple] [])
     = (Inr (CommandResp ''Write''),
        [SetHeader ''Openfga-Authorization-Model-Id'' ''model-1'', Executed ''Write''])
   \<and> XHttpCode exampleDeps = ''X-Http-Code''"
  by code_simp


section \<open>The thresholds of dispatch throttling\<close>

lemma validateThresholds_None:
  "(validateThresholds s = None) =
     (\<not> (checkDispatchThrottlingEnabled s
          \<and> checkDispatchThrottlingMaxThreshold s \<noteq> 0
          \<and> checkDispatchThrottlingDefaultThreshold s > checkDispatchThrottlingMaxThreshold s)
      \<and> \<not> (listObjectsDispatchThrottlingMaxThreshold s \<noteq> 0
          \<and> listObjectsDispatchDefaultThreshold s > listObjectsDispatchThrottlingMaxThreshold s)
      \<and> \<not> (listUsersDispatchThrottlingMaxThreshold s \<noteq> 0
          \<and> listUsersDispatchDefaultThreshold s > listUsersDispatchThrottlingMaxThreshold s))"
  by (simp add: validateThresholds_def)

lemma NewServerWithOpts_thresholds:
  "validateThresholds (applyOpts opts (initialServer (config b))) \<noteq> None
   \<Longrightarrow> isl (NewServerWithOpts b opts)"
  by (auto simp: NewServerWithOpts_def Let_def split: option.splits)


text \<open>
  Claim C9, as the code has it, for the server \<open>s\<close> that the options configure. The
  threshold validation passes exactly when none of three conditions holds: for Check,
  throttling enabled with a maximum other than 0 and a default above the maximum; for
  ListObjects and for ListUsers, a maximum other than 0 and a default above the maximum,
  enabled or not. When the validation does not pass, \<^verbatim>\<open>NewServerWithOpts\<close> returns an error.
\<close>

theorem threshold_validation:
  fixes b :: Builders and opts :: "OpenFGAServiceV1Option list"
  defines "s \<equiv> applyOpts opts (initialServer (config b))"
  shows
  "(validateThresholds s = None) =
     (\<not> (checkDispatchThrottlingEnabled s
          \<and> checkDispatchThrottlingMaxThreshold s \<noteq> 0
          \<and> checkDispatchThrottlingDefaultThreshold s > checkDispatchThrottlingMaxThreshold s)
      \<and> \<not> (listObjectsDispatchThrottlingMaxThreshold s \<noteq> 0
          \<and> listObjectsDispatchDefaultThreshold s > listObjectsDispatchThrottlingMaxThreshold s)
      \<and> \<not> (listUsersDispatchThrottlingMaxThreshold s \<noteq> 0
          \<and> listUsersDispatchDefaultThreshold s > listUsersDispatchThrottlingMaxThreshold s))
   \<and> (validateThresholds s \<noteq> None \<longrightarrow> isl (NewServerWithOpts b opts))"
  unfolding s_def
  using validateThresholds_None [of "applyOpts opts (initialServer (config b))"]
    NewServerWithOpts_thresholds [of opts b]
  by blast


text \<open>
  The theorem at work: a ListObjects default of 5 above a maximum of 3 fails the
  construction; a default of 3 under a maximum of 5 passes the validation.
\<close>

theorem threshold_validation_witness:
  "isl (NewServerWithOpts exampleBuilders
       [WithDatastore (Datastore ''memory''),
        WithListObjectsDispatchThrottlingThreshold 5,
        WithListObjectsDispatchThrottlingMaxThreshold 3])
   \<and> validateThresholds (applyOpts
       [WithDatastore (Datastore ''memory''),
        WithListObjectsDispatchThrottlingThreshold 3,
        WithListObjectsDispatchThrottlingMaxThreshold 5] (initialServer (config exampleBuilders))) = None"
proof -
  let ?bad = "[WithDatastore (Datastore ''memory''),
        WithListObjectsDispatchThrottlingThreshold 5,
        WithListObjectsDispatchThrottlingMaxThreshold 3]"
  let ?good = "[WithDatastore (Datastore ''memory''),
        WithListObjectsDispatchThrottlingThreshold 3,
        WithListObjectsDispatchThrottlingMaxThreshold 5]"
  let ?s = "applyOpts ?bad (initialServer (config exampleBuilders))"
  let ?t = "applyOpts ?good (initialServer (config exampleBuilders))"
  have bad: "listObjectsDispatchThrottlingMaxThreshold ?s \<noteq> 0"
    "listObjectsDispatchDefaultThreshold ?s > listObjectsDispatchThrottlingMaxThreshold ?s"
    by code_simp+
  have good: "\<not> checkDispatchThrottlingEnabled ?t"
    "\<not> listObjectsDispatchDefaultThreshold ?t > listObjectsDispatchThrottlingMaxThreshold ?t"
    "listUsersDispatchThrottlingMaxThreshold ?t = 0"
    by code_simp+
  from threshold_validation [of ?bad exampleBuilders] bad
  have 1: "isl (NewServerWithOpts exampleBuilders ?bad)"
    by blast
  from threshold_validation [of ?good exampleBuilders] good
  have 2: "validateThresholds ?t = None"
    by blast
  from 1 2 show ?thesis by simp
qed


text \<open>
  Claim C9 as stated fails for Check: with check throttling disabled, a default of 2 above
  a maximum of 1 does not stop the construction.
\<close>

theorem check_threshold_unchecked_when_disabled:
  "checkDispatchThrottlingMaxThreshold
     (applyOpts [WithDatastore (Datastore ''memory''),
        WithDispatchThrottlingCheckResolverEnabled False,
        WithDispatchThrottlingCheckResolverThreshold 2,
        WithDispatchThrottlingCheckResolverMaxThreshold 1] (initialServer (config exampleBuilders))) = 1
   \<and> checkDispatchThrottlingDefaultThreshold
     (applyOpts [WithDatastore (Datastore ''memory''),
        WithDispatchThrottlingCheckResolverEnabled False,
        WithDispatchThrottlingCheckResolverThreshold 2,
        WithDispatchThrottlingCheckResolverMaxThreshold 1] (initialServer (config exampleBuilders))) = 2
   \<and> \<not> isl (NewServerWithOpts exampleBuilders
       [WithDatastore (Datastore ''memory''),
        WithDispatchThrottlingCheckResolverEnabled False,
        WithDispatchThrottlingCheckResolverThreshold 2,
        WithDispatchThrottlingCheckResolverMaxThreshold 1])"
  by code_simp


end
